theory Spec2Isabelle
  imports Main
begin

section \<open>NLLB translation service (scripts/nllb\_translator.py)\<close>

text \<open>
  The script wraps a pretrained sequence-to-sequence model behind a JSON protocol.
  Everything the script itself decides (the language table, the lazy load, the order of
  the library calls and their arguments, the exception handlers, the two main loops) is
  modelled here. The libraries it calls (the file system, the JSON parser, the tokenizer
  and the model) are not code of the script: they are the fields of a record
  \<open>world\<close>, each returning either a raised exception or a value. A library call is
  a function of its arguments: the model does not follow a file system or a library that
  changes between two calls. Writing to standard output does not fail. The import guard
  at the top of the script and the parsing of the command line come before anything
  modelled here: \<open>main\<close> starts from the parsed arguments.
\<close>

subsection \<open>JSON values and Python exceptions\<close>

text \<open>
  What \<open>json.loads\<close> returns. A Python dict keeps its keys in insertion order and
  \<open>json.dumps\<close> writes them in that order, so an object is an association list.
  A float is never computed with; it is kept as the text of its literal.
\<close>

datatype json =
    JNull
  | JBool bool
  | JInt int
  | JFloat string
  | JString string
  | JArray "json list"
  | JObject "(string \<times> json) list"

type_synonym response = "(string \<times> json) list"

text \<open>
  Exceptions: the class, as far as the handlers of the script tell classes apart, and
  the text \<open>str(e)\<close>. \<open>KeyboardInterrupt\<close> and the other direct subclasses of
  \<open>BaseException\<close> are not caught by \<open>except Exception\<close>.
\<close>

datatype exn_class =
    JSONDecodeError
  | KeyError
  | AttributeError
  | TypeError
  | IndexError
  | EOFError
  | OtherException
  | KeyboardInterrupt
  | OtherBaseException

datatype exn = Exn exn_class string

fun str_exn :: "exn \<Rightarrow> string" where
  "str_exn (Exn c m) = m"

fun is_Exception :: "exn \<Rightarrow> bool" where
  "is_Exception (Exn c m) = (c \<noteq> KeyboardInterrupt \<and> c \<noteq> OtherBaseException)"

fun is_JSONDecodeError :: "exn \<Rightarrow> bool" where
  "is_JSONDecodeError (Exn c m) = (c = JSONDecodeError)"

fun is_KeyboardInterrupt :: "exn \<Rightarrow> bool" where
  "is_KeyboardInterrupt (Exn c m) = (c = KeyboardInterrupt)"

text \<open>The name Python prints for the type of a decoded JSON value.\<close>

fun type_name :: "json \<Rightarrow> string" where
  "type_name JNull = ''NoneType''"
| "type_name (JBool b) = ''bool''"
| "type_name (JInt i) = ''int''"
| "type_name (JFloat f) = ''float''"
| "type_name (JString s) = ''str''"
| "type_name (JArray xs) = ''list''"
| "type_name (JObject kvs) = ''dict''"

text \<open>A name between single quotes, as Python's messages and \<open>repr\<close> write it.\<close>

definition quoted :: "string \<Rightarrow> string" where
  "quoted s = [CHR 0x27] @ s @ [CHR 0x27]"

definition no_attribute :: "string \<Rightarrow> string \<Rightarrow> string" where
  "no_attribute ty attr = quoted ty @ '' object has no attribute '' @ quoted attr"

text \<open>
  \<open>input_data.get(key)\<close>: on a dict the value or \<open>None\<close>; any other decoded value has
  no method \<open>get\<close>.
\<close>

fun json_get :: "json \<Rightarrow> string \<Rightarrow> exn + json option" where
  "json_get (JObject kvs) k = Inr (map_of kvs k)"
| "json_get v k =
     Inl (Exn AttributeError (no_attribute (type_name v) ''get''))"

text \<open>\<open>input_data.get(key, default)\<close>, called only after \<open>get(key)\<close> has succeeded.\<close>

fun json_get_default :: "json \<Rightarrow> string \<Rightarrow> json \<Rightarrow> exn + json" where
  "json_get_default (JObject kvs) k d = Inr (case map_of kvs k of None \<Rightarrow> d | Some v \<Rightarrow> v)"
| "json_get_default v k d =
     Inl (Exn AttributeError (no_attribute (type_name v) ''get''))"

text \<open>
  \<open>input_data["text"]\<close>: a missing key raises \<open>KeyError\<close>, whose \<open>str\<close> is the
  \<open>repr\<close> of the key. The script subscripts with the literal \<open>"text"\<close> only, and
  only a dict reaches the subscript.
\<close>

fun json_subscript_text :: "json \<Rightarrow> exn + json" where
  "json_subscript_text (JObject kvs) =
     (case map_of kvs ''text'' of
        None \<Rightarrow> Inl (Exn KeyError (quoted ''text''))
      | Some v \<Rightarrow> Inr v)"
| "json_subscript_text v =
     Inl (Exn TypeError (quoted (type_name v) @ '' object is not subscriptable''))"

definition has_key :: "string \<Rightarrow> response \<Rightarrow> bool" where
  "has_key k r = (k \<in> set (map fst r))"

subsection \<open>The language table\<close>

definition lang_codes :: "(string \<times> string) list" where
  "lang_codes =
     [(''en'', ''eng_Latn''),
      (''es'', ''spa_Latn''),
      (''fr'', ''fra_Latn''),
      (''de'', ''deu_Latn''),
      (''it'', ''ita_Latn''),
      (''pt'', ''por_Latn''),
      (''ru'', ''rus_Cyrl''),
      (''ja'', ''jpn_Jpan''),
      (''ko'', ''kor_Hang''),
      (''zh'', ''zho_Hans''),
      (''ar'', ''arb_Arab''),
      (''hi'', ''hin_Deva'')]"

text \<open>
  \<open>self.lang_codes.get(key, default)\<close>. The key is whatever the caller passed: a
  string is looked up, a list or a dict is unhashable, and every other value is hashable
  and equal to no key of the table.
\<close>

fun lang_codes_get :: "json \<Rightarrow> string \<Rightarrow> exn + string" where
  "lang_codes_get (JString s) d = Inr (case map_of lang_codes s of None \<Rightarrow> d | Some v \<Rightarrow> v)"
| "lang_codes_get (JArray xs) d = Inl (Exn TypeError (''unhashable type: '' @ quoted ''list''))"
| "lang_codes_get (JObject kvs) d = Inl (Exn TypeError (''unhashable type: '' @ quoted ''dict''))"
| "lang_codes_get v d = Inr d"

subsection \<open>The translator object, the libraries and the observable events\<close>

text \<open>
  The fields \<open>__init__\<close> sets. The language table is the same for every instance and
  nothing assigns to it, so it is the constant above.
\<close>

record ('tok, 'mdl) translator =
  model_path :: string
  device :: string
  model :: "'mdl option"
  tokenizer :: "'tok option"
  loaded :: bool

definition init :: "string \<Rightarrow> string \<Rightarrow> ('tok, 'mdl) translator" where
  "init mp dev =
     \<lparr>model_path = mp, device = dev, model = None, tokenizer = None, loaded = False\<rparr>"

datatype dtype = Float16 | Float32

text \<open>The keyword arguments of the tokenizer call and of \<open>model.generate\<close>.\<close>

record tokenizer_args =
  text_arg :: json
  return_tensors :: string
  padding :: bool
  truncation :: bool
  tok_max_length :: nat

record generate_args =
  forced_bos_token_id :: int
  max_length :: nat
  num_beams :: nat
  early_stopping :: bool
  do_sample :: bool

text \<open>
  The libraries. \<open>'tok\<close>, \<open>'mdl\<close>, \<open>'inp\<close> and \<open>'out\<close> are the tokenizer, the model,
  the encoded batch and one generated sequence. A call returns \<open>Inl\<close> the exception it
  raises or \<open>Inr\<close> its value; \<open>os.path.exists\<close> does not raise. \<open>stdin_read\<close> is
  \<open>sys.stdin.read()\<close>, the whole of standard input.
\<close>

record ('tok, 'mdl, 'inp, 'out) world =
  stdin_read :: "exn + string"
  json_loads :: "string \<Rightarrow> exn + json"
  path_exists :: "string \<Rightarrow> bool"
  tokenizer_from_pretrained :: "string \<Rightarrow> exn + 'tok"
  model_from_pretrained :: "string \<Rightarrow> dtype \<Rightarrow> string option \<Rightarrow> exn + 'mdl"
  model_to :: "'mdl \<Rightarrow> string \<Rightarrow> exn + 'mdl"
  tokenizer_call :: "'tok \<Rightarrow> tokenizer_args \<Rightarrow> exn + 'inp"
  inputs_to :: "'inp \<Rightarrow> string \<Rightarrow> exn + 'inp"
  lang_code_to_id :: "'tok \<Rightarrow> string \<Rightarrow> exn + int"
  generate :: "'mdl \<Rightarrow> 'inp \<Rightarrow> generate_args \<Rightarrow> exn + 'out list"
  decode :: "'tok \<Rightarrow> 'out \<Rightarrow> bool \<Rightarrow> exn + string"

text \<open>
  What the process does that can be seen from outside, in order: what it writes to
  standard output (\<open>Print d indent\<close> is \<open>print(json.dumps(d, indent=indent))\<close>), the
  prompts of \<open>input\<close>, and each library call with the arguments the script chose.
\<close>

datatype ('inp, 'out) event =
    Print response "nat option"
  | Print_text string
  | Prompt string
  | Stdin_read
  | Json_loads string
  | Os_path_exists string
  | Tokenizer_from_pretrained string
  | Model_from_pretrained string dtype "string option"
  | Model_to string
  | Tokenizer_call tokenizer_args
  | Inputs_to string
  | Lang_code_to_id string
  | Generate 'inp generate_args
  | Decode 'out bool

subsection \<open>Sequencing statements\<close>

text \<open>
  A block of statements takes the translator object and returns the exception it raised
  or its value, the object as the block left it, and the events in order. An assignment
  made before an exception stays made.
\<close>

type_synonym ('s, 'e, 'a) prog = "'s \<Rightarrow> (exn + 'a) \<times> 's \<times> 'e list"

definition ret :: "'a \<Rightarrow> ('s, 'e, 'a) prog" where
  "ret x = (\<lambda>s. (Inr x, s, []))"

definition raise :: "exn \<Rightarrow> ('s, 'e, 'a) prog" where
  "raise e = (\<lambda>s. (Inl e, s, []))"

definition lift :: "exn + 'a \<Rightarrow> ('s, 'e, 'a) prog" where
  "lift r = (\<lambda>s. (r, s, []))"

definition call :: "'e \<Rightarrow> exn + 'a \<Rightarrow> ('s, 'e, 'a) prog" where
  "call ev r = (\<lambda>s. (r, s, [ev]))"

definition emit :: "'e \<Rightarrow> ('s, 'e, unit) prog" where
  "emit ev = (\<lambda>s. (Inr (), s, [ev]))"

definition get_self :: "('s, 'e, 's) prog" where
  "get_self = (\<lambda>s. (Inr s, s, []))"

definition assign :: "('s \<Rightarrow> 's) \<Rightarrow> ('s, 'e, unit) prog" where
  "assign f = (\<lambda>s. (Inr (), f s, []))"

definition bind :: "('s, 'e, 'a) prog \<Rightarrow> ('a \<Rightarrow> ('s, 'e, 'b) prog) \<Rightarrow> ('s, 'e, 'b) prog" where
  "bind m f =
     (\<lambda>s. case m s of
        (Inl e, s1, t1) \<Rightarrow> (Inl e, s1, t1)
      | (Inr x, s1, t1) \<Rightarrow> (case f x s1 of (r, s2, t2) \<Rightarrow> (r, s2, t1 @ t2)))"

text \<open>
  \<open>try: m except ...: h\<close>. The handler function returns \<open>None\<close> for an exception
  no clause matches, which then propagates.
\<close>

definition try_except ::
  "('s, 'e, 'a) prog \<Rightarrow> (exn \<Rightarrow> ('s, 'e, 'a) prog option) \<Rightarrow> ('s, 'e, 'a) prog" where
  "try_except m h =
     (\<lambda>s. case m s of
        (Inr x, s1, t1) \<Rightarrow> (Inr x, s1, t1)
      | (Inl e, s1, t1) \<Rightarrow>
          (case h e of
             None \<Rightarrow> (Inl e, s1, t1)
           | Some k \<Rightarrow> (case k s1 of (r, s2, t2) \<Rightarrow> (r, s2, t1 @ t2))))"

definition result_of :: "(exn + 'a) \<times> 's \<times> 'e list \<Rightarrow> exn + 'a" where
  "result_of x = fst x"

definition state_of :: "(exn + 'a) \<times> 's \<times> 'e list \<Rightarrow> 's" where
  "state_of x = fst (snd x)"

definition trace_of :: "(exn + 'a) \<times> 's \<times> 'e list \<Rightarrow> 'e list" where
  "trace_of x = snd (snd x)"

subsection \<open>load\_model\<close>

definition model_not_found :: "string \<Rightarrow> response" where
  "model_not_found mp =
     [(''error'', JString (''Model not found at '' @ mp)),
      (''status'', JString ''model_not_found'')]"

definition loading_message :: response where
  "loading_message =
     [(''status'', JString ''loading''), (''message'', JString ''Loading NLLB model...'')]"

definition loaded_message :: response where
  "loaded_message =
     [(''status'', JString ''loaded''), (''message'', JString ''NLLB model loaded successfully'')]"

definition load_error :: "exn \<Rightarrow> response" where
  "load_error e =
     [(''error'', JString (''Failed to load model: '' @ str_exn e)),
      (''status'', JString ''load_error'')]"

text \<open>The body of the \<open>try\<close> of \<open>load_model\<close>.\<close>

definition load_model_try ::
  "('tok, 'mdl, 'inp, 'out) world \<Rightarrow>
   (('tok, 'mdl) translator, ('inp, 'out) event, response) prog" where
  "load_model_try w =
     bind get_self (\<lambda>self.
     bind (call (Os_path_exists (model_path self)) (Inr (path_exists w (model_path self))))
       (\<lambda>ex.
     if \<not> ex then ret (model_not_found (model_path self))
     else
     bind (emit (Print loading_message None)) (\<lambda>_.
     bind (call (Tokenizer_from_pretrained (model_path self))
             (tokenizer_from_pretrained w (model_path self))) (\<lambda>tok.
     bind (assign (\<lambda>s. s\<lparr>tokenizer := Some tok\<rparr>)) (\<lambda>_.
     let torch_dtype = (if device self \<noteq> ''cpu'' then Float16 else Float32);
         device_map = (if device self \<noteq> ''cpu'' then Some ''auto'' else None)
     in
     bind (call (Model_from_pretrained (model_path self) torch_dtype device_map)
             (model_from_pretrained w (model_path self) torch_dtype device_map)) (\<lambda>m.
     bind (assign (\<lambda>s. s\<lparr>model := Some m\<rparr>)) (\<lambda>_.
     bind (if device self = ''cpu''
           then bind (call (Model_to ''cpu'') (model_to w m ''cpu'')) (\<lambda>m'.
                assign (\<lambda>s. s\<lparr>model := Some m'\<rparr>))
           else ret ()) (\<lambda>_.
     bind (assign (\<lambda>s. s\<lparr>loaded := True\<rparr>)) (\<lambda>_.
     ret loaded_message)))))))))"

definition load_model ::
  "('tok, 'mdl, 'inp, 'out) world \<Rightarrow>
   (('tok, 'mdl) translator, ('inp, 'out) event, response) prog" where
  "load_model w =
     try_except (load_model_try w)
       (\<lambda>e. if is_Exception e then Some (ret (load_error e)) else None)"

subsection \<open>translate\<close>

definition success :: "string \<Rightarrow> json \<Rightarrow> json \<Rightarrow> response" where
  "success translation source_lang target_lang =
     [(''status'', JString ''success''),
      (''translation'', JString translation),
      (''source_lang'', source_lang),
      (''target_lang'', target_lang),
      (''model'', JString ''nllb-200'')]"

definition translation_error :: "exn \<Rightarrow> response" where
  "translation_error e =
     [(''error'', JString (''Translation failed: '' @ str_exn e)),
      (''status'', JString ''translation_error'')]"

definition the_tokenizer_args :: "json \<Rightarrow> tokenizer_args" where
  "the_tokenizer_args text =
     \<lparr>text_arg = text, return_tensors = ''pt'', padding = True, truncation = True,
      tok_max_length = 512\<rparr>"

definition the_generate_args :: "int \<Rightarrow> generate_args" where
  "the_generate_args bos =
     \<lparr>forced_bos_token_id = bos, max_length = 512, num_beams = 4, early_stopping = True,
      do_sample = False\<rparr>"

text \<open>
  The body of the \<open>try\<close> of \<open>translate\<close>. The type hints of the arguments are not
  checked, and the JSON mode passes whatever the request holds, so the three arguments
  are JSON values. \<open>src_code\<close> is computed and not used afterwards, as in the source.
  Calling a tokenizer that is still \<open>None\<close> raises \<open>TypeError\<close>, and a model that is
  still \<open>None\<close> has no \<open>generate\<close>. \<open>outputs[0]\<close> of an empty batch raises
  \<open>IndexError\<close>. \<open>torch.no_grad()\<close> changes no value and is left out.
\<close>

definition translate_try ::
  "('tok, 'mdl, 'inp, 'out) world \<Rightarrow> json \<Rightarrow> json \<Rightarrow> json \<Rightarrow>
   (('tok, 'mdl) translator, ('inp, 'out) event, response) prog" where
  "translate_try w text source_lang target_lang =
     bind get_self (\<lambda>self.
     bind (lift (lang_codes_get source_lang ''eng_Latn'')) (\<lambda>src_code.
     bind (lift (lang_codes_get target_lang ''spa_Latn'')) (\<lambda>tgt_code.
     case tokenizer self of
       None \<Rightarrow> raise (Exn TypeError (quoted ''NoneType'' @ '' object is not callable''))
     | Some tok \<Rightarrow>
     bind (call (Tokenizer_call (the_tokenizer_args text))
             (tokenizer_call w tok (the_tokenizer_args text))) (\<lambda>inputs0.
     bind (if device self \<noteq> ''cpu''
           then call (Inputs_to (device self)) (inputs_to w inputs0 (device self))
           else ret inputs0) (\<lambda>inputs.
     bind (call (Lang_code_to_id tgt_code) (lang_code_to_id w tok tgt_code)) (\<lambda>bos.
     case model self of
       None \<Rightarrow> raise (Exn AttributeError (no_attribute ''NoneType'' ''generate''))
     | Some m \<Rightarrow>
     bind (call (Generate inputs (the_generate_args bos))
             (generate w m inputs (the_generate_args bos))) (\<lambda>outputs.
     bind (case outputs of
             [] \<Rightarrow> raise (Exn IndexError ''index 0 is out of bounds for dimension 0 with size 0'')
           | out0 # _ \<Rightarrow> ret out0) (\<lambda>out0.
     bind (call (Decode out0 True) (decode w tok out0 True)) (\<lambda>translation.
     ret (success translation source_lang target_lang))))))))))"

text \<open>The \<open>try\<close> statement of \<open>translate\<close>: the body with its handler.\<close>

definition translate_try_except ::
  "('tok, 'mdl, 'inp, 'out) world \<Rightarrow> json \<Rightarrow> json \<Rightarrow> json \<Rightarrow>
   (('tok, 'mdl) translator, ('inp, 'out) event, response) prog" where
  "translate_try_except w text source_lang target_lang =
     try_except (translate_try w text source_lang target_lang)
       (\<lambda>e. if is_Exception e then Some (ret (translation_error e)) else None)"

text \<open>
  \<open>translate\<close>: the implicit load, whose result is returned when it has a key
  \<open>error\<close>, then the \<open>try\<close> statement.
\<close>

definition translate ::
  "('tok, 'mdl, 'inp, 'out) world \<Rightarrow> json \<Rightarrow> json \<Rightarrow> json \<Rightarrow>
   (('tok, 'mdl) translator, ('inp, 'out) event, response) prog" where
  "translate w text source_lang target_lang =
     bind get_self (\<lambda>self.
     bind (if \<not> loaded self
           then bind (load_model w) (\<lambda>load_result.
                ret (if has_key ''error'' load_result then Some load_result else None))
           else ret None) (\<lambda>returned.
     case returned of
       Some load_result \<Rightarrow> ret load_result
     | None \<Rightarrow> translate_try_except w text source_lang target_lang))"

subsection \<open>main\<close>

text \<open>
  \<open>str.strip()\<close> and \<open>str.lower()\<close> on ASCII text: the characters Python counts as
  white space below 128, and the letters A to Z.
\<close>

definition is_space :: "char \<Rightarrow> bool" where
  "is_space c = (of_char c \<in> {9, 10, 11, 12, 13, 28, 29, 30, 31, 32 :: nat})"

definition strip :: "string \<Rightarrow> string" where
  "strip s = rev (dropWhile is_space (rev (dropWhile is_space s)))"

definition lower_char :: "char \<Rightarrow> char" where
  "lower_char c =
     (if 65 \<le> (of_char c :: nat) \<and> (of_char c :: nat) \<le> 90
      then char_of (of_char c + 32 :: nat) else c)"

definition lower :: "string \<Rightarrow> string" where
  "lower s = map lower_char s"

definition json_error :: response where
  "json_error = [(''error'', JString ''Invalid JSON input''), (''status'', JString ''json_error'')]"

definition unknown_action :: response where
  "unknown_action = [(''error'', JString ''Unknown action''), (''status'', JString ''error'')]"

definition unexpected_error :: "exn \<Rightarrow> response" where
  "unexpected_error e =
     [(''error'', JString (''Unexpected error: '' @ str_exn e)),
      (''status'', JString ''error'')]"

text \<open>The body of the \<open>try\<close> of the JSON mode.\<close>

definition json_mode_try ::
  "('tok, 'mdl, 'inp, 'out) world \<Rightarrow>
   (('tok, 'mdl) translator, ('inp, 'out) event, unit) prog" where
  "json_mode_try w =
     bind (call Stdin_read (stdin_read w)) (\<lambda>payload.
     bind (call (Json_loads payload) (json_loads w payload)) (\<lambda>input_data.
     bind (lift (json_get input_data ''action'')) (\<lambda>action.
     bind (if action = Some (JString ''load'') then load_model w
           else if action = Some (JString ''translate'') then
             bind (lift (json_subscript_text input_data)) (\<lambda>text.
             bind (lift (json_get_default input_data ''source_lang'' (JString ''en'')))
               (\<lambda>source_lang.
             bind (lift (json_get_default input_data ''target_lang'' (JString ''es'')))
               (\<lambda>target_lang.
             translate w text source_lang target_lang)))
           else ret unknown_action) (\<lambda>result.
     emit (Print result None)))))"

definition json_mode ::
  "('tok, 'mdl, 'inp, 'out) world \<Rightarrow>
   (('tok, 'mdl) translator, ('inp, 'out) event, unit) prog" where
  "json_mode w =
     try_except (json_mode_try w)
       (\<lambda>e. if is_JSONDecodeError e then Some (emit (Print json_error None))
            else if is_Exception e then Some (emit (Print (unexpected_error e) None))
            else None)"

text \<open>
  The interactive loop. The console is the list of what each \<open>input\<close> call meets: a
  line, or the interrupt key; at the end of the list \<open>input\<close> raises \<open>EOFError\<close>,
  which no handler of the loop catches. Each equation is one iteration, from the prompt
  for the text on; the events of the iteration come first in the result.
\<close>

datatype console = Line string | Interrupt

definition eof :: exn where
  "eof = Exn EOFError ''EOF when reading a line''"

fun interactive_loop ::
  "('tok, 'mdl, 'inp, 'out) world \<Rightarrow> console list \<Rightarrow>
   (('tok, 'mdl) translator, ('inp, 'out) event, unit) prog" where
  "interactive_loop w [] s = (Inl eof, s, [Prompt ''Text: ''])"
| "interactive_loop w (Interrupt # ins) s = (Inr (), s, [Prompt ''Text: ''])"
| "interactive_loop w (Line l1 # ins) s =
     (let text = strip l1 in
      if lower text = ''quit'' then (Inr (), s, [Prompt ''Text: ''])
      else
        (case ins of
           [] \<Rightarrow> (Inl eof, s, [Prompt ''Text: '', Prompt ''Source language (en): ''])
         | Interrupt # ins1 \<Rightarrow>
             (Inr (), s, [Prompt ''Text: '', Prompt ''Source language (en): ''])
         | Line l2 # ins1 \<Rightarrow>
             (let source = (if strip l2 = [] then ''en'' else strip l2) in
              case ins1 of
                [] \<Rightarrow>
                  (Inl eof, s,
                   [Prompt ''Text: '', Prompt ''Source language (en): '',
                    Prompt ''Target language (es): ''])
              | Interrupt # ins2 \<Rightarrow>
                  (Inr (), s,
                   [Prompt ''Text: '', Prompt ''Source language (en): '',
                    Prompt ''Target language (es): ''])
              | Line l3 # ins2 \<Rightarrow>
                  (let target = (if strip l3 = [] then ''es'' else strip l3) in
                   case translate w (JString text) (JString source) (JString target) s of
                     (Inl e, s1, t1) \<Rightarrow>
                       (if is_KeyboardInterrupt e then Inr () else Inl e, s1,
                        [Prompt ''Text: '', Prompt ''Source language (en): '',
                         Prompt ''Target language (es): ''] @ t1)
                   | (Inr result, s1, t1) \<Rightarrow>
                       (case interactive_loop w ins2 s1 of
                          (r, s2, t2) \<Rightarrow>
                            (r, s2,
                             [Prompt ''Text: '', Prompt ''Source language (en): '',
                              Prompt ''Target language (es): ''] @ t1
                             @ [Print result (Some 2)] @ t2))))))"

record args =
  arg_model_path :: string
  arg_device :: string
  arg_interactive :: bool

text \<open>
  \<open>main\<close> after \<open>parse_args\<close>: it builds the translator and runs one of the two
  modes. The result \<open>Inr ()\<close> is a normal return; \<open>Inl e\<close> is an exception that leaves
  \<open>main\<close> uncaught.
\<close>

definition main ::
  "('tok, 'mdl, 'inp, 'out) world \<Rightarrow> args \<Rightarrow> console list \<Rightarrow>
   (exn + unit) \<times> ('tok, 'mdl) translator \<times> ('inp, 'out) event list" where
  "main w a ins =
     (let translator = init (arg_model_path a) (arg_device a) in
      if arg_interactive a then
        (case interactive_loop w ins translator of
           (r, s, t) \<Rightarrow>
             (r, s,
              [Print_text ''NLLB Translator Interactive Mode'',
               Print_text (''Enter '' @ quoted ''quit'' @ '' to exit'')] @ t))
      else json_mode w translator)"

text \<open>The events only \<open>load_model\<close> produces.\<close>

fun is_load_event :: "('inp, 'out) event \<Rightarrow> bool" where
  "is_load_event (Os_path_exists p) = True"
| "is_load_event (Tokenizer_from_pretrained p) = True"
| "is_load_event (Model_from_pretrained p t d) = True"
| "is_load_event (Model_to d) = True"
| "is_load_event (Print d i) = (d = loading_message)"
| "is_load_event e = False"

subsection \<open>Stand-in libraries for concrete runs\<close>

text \<open>
  A world in which every library call succeeds: the model directory exists or not as
  \<open>present\<close> says, generation returns one sequence, and decoding returns \<open>decoded\<close>.
  Standard input holds \<open>payload\<close>, which \<open>json.loads\<close> decodes as \<open>parsed\<close> says.
\<close>

definition stub_world ::
  "bool \<Rightarrow> string \<Rightarrow> string \<Rightarrow> exn + json \<Rightarrow> (unit, unit, unit, unit) world" where
  "stub_world present decoded payload parsed =
     \<lparr>stdin_read = Inr payload,
      json_loads = (\<lambda>_. parsed),
      path_exists = (\<lambda>_. present),
      tokenizer_from_pretrained = (\<lambda>_. Inr ()),
      model_from_pretrained = (\<lambda>_ _ _. Inr ()),
      model_to = (\<lambda>_ _. Inr ()),
      tokenizer_call = (\<lambda>_ _. Inr ()),
      inputs_to = (\<lambda>_ _. Inr ()),
      lang_code_to_id = (\<lambda>_ _. Inr 256098),
      generate = (\<lambda>_ _ _. Inr [()]),
      decode = (\<lambda>_ _ _. Inr decoded)\<rparr>"

definition not_json :: "exn + json" where
  "not_json = Inl (Exn JSONDecodeError ''Expecting value: line 1 column 1 (char 0)'')"

text \<open>A translator on the CPU that has loaded its model, and one that has not.\<close>

definition loaded_translator :: "(unit, unit) translator" where
  "loaded_translator =
     \<lparr>model_path = ''/models/nllb'', device = ''cpu'', model = Some (), tokenizer = Some (),
      loaded = True\<rparr>"

definition fresh_translator :: "(unit, unit) translator" where
  "fresh_translator = init ''/models/nllb'' ''cpu''"

section \<open>Properties\<close>

lemmas prog_defs =
  ret_def raise_def lift_def call_def emit_def get_self_def assign_def bind_def
  try_except_def result_of_def state_of_def trace_of_def

lemmas stub_defs =
  stub_world_def not_json_def loaded_translator_def fresh_translator_def init_def

subsection \<open>What a block leaves of the translator and of the events\<close>

lemma prim_state:
  "state_of (ret v s) = s"
  "state_of (raise e s) = s"
  "state_of (lift r s) = s"
  "state_of (call ev r s) = s"
  "state_of (emit ev s) = s"
  "state_of (get_self s) = s"
  by (simp_all add: prog_defs)

lemma bind_state:
  assumes "\<And>s. state_of (m s) = s" and "\<And>x s. state_of (f x s) = s"
  shows "state_of (bind m f s) = s"
proof -
  obtain r s1 t1 where m: "m s = (r, s1, t1)" by (rule prod_cases3)
  with assms(1) [of s] have s1: "s1 = s" by (simp add: state_of_def)
  show ?thesis
  proof (cases r)
    case (Inl e)
    with m s1 show ?thesis by (simp add: bind_def state_of_def)
  next
    case (Inr x)
    obtain r2 s2 t2 where f: "f x s = (r2, s2, t2)" by (rule prod_cases3)
    with assms(2) [of x s] have "s2 = s" by (simp add: state_of_def)
    with m s1 Inr f show ?thesis by (simp add: bind_def state_of_def)
  qed
qed

lemma prim_trace:
  "set (trace_of (ret v s)) \<subseteq> A"
  "set (trace_of (raise e s)) \<subseteq> A"
  "set (trace_of (lift r s)) \<subseteq> A"
  "set (trace_of (get_self s)) \<subseteq> A"
  "ev \<in> A \<Longrightarrow> set (trace_of (call ev r s)) \<subseteq> A"
  "ev \<in> A \<Longrightarrow> set (trace_of (emit ev s)) \<subseteq> A"
  by (simp_all add: prog_defs)

lemma bind_trace:
  assumes "\<And>s. set (trace_of (m s)) \<subseteq> A"
      and "\<And>x s. set (trace_of (f x s)) \<subseteq> A"
  shows "set (trace_of (bind m f s)) \<subseteq> A"
proof -
  obtain r s1 t1 where m: "m s = (r, s1, t1)" by (rule prod_cases3)
  with assms(1) [of s] have t1: "set t1 \<subseteq> A" by (simp add: trace_of_def)
  show ?thesis
  proof (cases r)
    case (Inl e)
    with m t1 show ?thesis by (simp add: bind_def trace_of_def)
  next
    case (Inr x)
    obtain r2 s2 t2 where f: "f x s1 = (r2, s2, t2)" by (rule prod_cases3)
    with assms(2) [of x s1] have "set t2 \<subseteq> A" by (simp add: trace_of_def)
    with m t1 Inr f show ?thesis by (simp add: bind_def trace_of_def)
  qed
qed

text \<open>The loaded flag through a sequence and through a \<open>try\<close> statement.\<close>

lemma prim_loaded:
  "loaded s \<Longrightarrow> loaded (state_of (ret v s))"
  "loaded s \<Longrightarrow> loaded (state_of (lift r s))"
  "loaded s \<Longrightarrow> loaded (state_of (call ev r s))"
  "loaded s \<Longrightarrow> loaded (state_of (emit ev s))"
  by (simp_all add: prog_defs)

lemma bind_loaded:
  assumes "\<And>s. loaded s \<Longrightarrow> loaded (state_of (m s))"
      and "\<And>x s. loaded s \<Longrightarrow> loaded (state_of (f x s))"
      and "loaded s"
  shows "loaded (state_of (bind m f s))"
proof -
  obtain r s1 t1 where m: "m s = (r, s1, t1)" by (rule prod_cases3)
  with assms(1) [OF assms(3)] have l1: "loaded s1" by (simp add: state_of_def)
  show ?thesis
  proof (cases r)
    case (Inl e)
    with m l1 show ?thesis by (simp add: bind_def state_of_def)
  next
    case (Inr x)
    obtain r2 s2 t2 where f: "f x s1 = (r2, s2, t2)" by (rule prod_cases3)
    with assms(2) [OF l1, of x] have "loaded s2" by (simp add: state_of_def)
    with m Inr f show ?thesis by (simp add: bind_def state_of_def)
  qed
qed

lemma try_except_loaded:
  assumes "\<And>s. loaded s \<Longrightarrow> loaded (state_of (m s))"
      and "\<And>e k s. h e = Some k \<Longrightarrow> loaded s \<Longrightarrow> loaded (state_of (k s))"
      and "loaded s"
  shows "loaded (state_of (try_except m h s))"
proof -
  obtain r s1 t1 where m: "m s = (r, s1, t1)" by (rule prod_cases3)
  with assms(1) [OF assms(3)] have l1: "loaded s1" by (simp add: state_of_def)
  show ?thesis
  proof (cases r)
    case (Inr x)
    with m l1 show ?thesis by (simp add: try_except_def state_of_def)
  next
    case (Inl e)
    show ?thesis
    proof (cases "h e")
      case None
      with m Inl l1 show ?thesis by (simp add: try_except_def state_of_def)
    next
      case (Some k)
      obtain r2 s2 t2 where k: "k s1 = (r2, s2, t2)" by (rule prod_cases3)
      with assms(2) [OF Some l1] have "loaded s2" by (simp add: state_of_def)
      with m Inl Some k show ?thesis by (simp add: try_except_def state_of_def)
    qed
  qed
qed

subsection \<open>The results of load\_model and the shape of translate\<close>

lemma status_simps:
  "map_of (translation_error e) ''status'' = Some (JString ''translation_error'')"
  "map_of (load_error e) ''status'' = Some (JString ''load_error'')"
  "map_of (model_not_found p) ''status'' = Some (JString ''model_not_found'')"
  "map_of loaded_message ''status'' = Some (JString ''loaded'')"
  "map_of (success tr a b) ''status'' = Some (JString ''success'')"
  by (simp_all add: translation_error_def load_error_def model_not_found_def
      loaded_message_def success_def)

lemma load_model_result:
  "load_model w s = (Inr lr, s1, t1) \<Longrightarrow>
     device s1 = device s \<and> model_path s1 = model_path s \<and>
     (lr = model_not_found (model_path s) \<or> (\<exists>e. lr = load_error e) \<or>
      (lr = loaded_message \<and> loaded s1))"
  by (auto simp add: load_model_def load_model_try_def prog_defs Let_def
       split: sum.splits prod.splits option.splits if_splits)

lemma load_model_loaded: "loaded s \<Longrightarrow> loaded (state_of (load_model w s))"
  by (auto simp add: load_model_def load_model_try_def prog_defs Let_def
       split: sum.splits prod.splits option.splits if_splits)

lemma translate_unfold:
  "translate w x src tgt s =
     (if loaded s then translate_try_except w x src tgt s
      else case load_model w s of
             (Inl e, s1, t1) \<Rightarrow> (Inl e, s1, t1)
           | (Inr lr, s1, t1) \<Rightarrow>
               if has_key ''error'' lr then (Inr lr, s1, t1)
               else (case translate_try_except w x src tgt s1 of
                       (r, s2, t2) \<Rightarrow> (r, s2, t1 @ t2)))"
  by (auto simp add: translate_def bind_def get_self_def ret_def
      split: sum.splits prod.splits option.splits)

lemma translate_try_state: "state_of (translate_try w x src tgt s) = s"
  unfolding translate_try_def
  by (intro bind_state) (simp_all add: prim_state bind_state split: option.splits list.splits)

lemma translate_try_trace:
  "set (trace_of (translate_try w x src tgt s)) \<subseteq> {e. \<not> is_load_event e}"
  unfolding translate_try_def
  by (intro bind_trace) (simp_all add: prim_trace bind_trace split: option.splits list.splits)

lemma translate_try_except_state: "state_of (translate_try_except w x src tgt s) = s"
  using translate_try_state [of w x src tgt s]
  by (cases "translate_try w x src tgt s" rule: prod_cases3)
     (auto simp add: translate_try_except_def try_except_def ret_def state_of_def
       split: sum.splits)

lemma translate_try_except_trace:
  "trace_of (translate_try_except w x src tgt s) = trace_of (translate_try w x src tgt s)"
  by (cases "translate_try w x src tgt s" rule: prod_cases3)
     (auto simp add: translate_try_except_def try_except_def ret_def trace_of_def
       split: sum.splits)

lemma translate_try_except_cases:
  assumes "translate_try_except w x src tgt s = (Inr r, s', t)"
  shows "s' = s \<and>
         (translate_try w x src tgt s = (Inr r, s, t) \<or> (\<exists>e. r = translation_error e))"
proof -
  obtain r0 s0 t0 where tt: "translate_try w x src tgt s = (r0, s0, t0)"
    by (rule prod_cases3)
  with translate_try_state [of w x src tgt s] have "s0 = s"
    by (simp add: state_of_def)
  with tt assms show ?thesis
    by (cases r0)
       (auto simp add: translate_try_except_def try_except_def ret_def split: if_splits)
qed

text \<open>
  The \<open>try\<close> body returns only by its last statement, after every library call has
  returned a value; and when every call returns a value, it does.
\<close>

lemma translate_try_success:
  assumes "result_of (translate_try w x src tgt s) = Inr r"
  shows "\<exists>tok m sc tc inp0 inp bos out0 outs translation.
           tokenizer s = Some tok \<and> model s = Some m \<and>
           lang_codes_get src ''eng_Latn'' = Inr sc \<and>
           lang_codes_get tgt ''spa_Latn'' = Inr tc \<and>
           tokenizer_call w tok (the_tokenizer_args x) = Inr inp0 \<and>
           (if device s \<noteq> ''cpu'' then inputs_to w inp0 (device s) else Inr inp0) = Inr inp \<and>
           lang_code_to_id w tok tc = Inr bos \<and>
           generate w m inp (the_generate_args bos) = Inr (out0 # outs) \<and>
           decode w tok out0 True = Inr translation \<and>
           translate_try w x src tgt s =
             (Inr (success translation src tgt), s,
              [Tokenizer_call (the_tokenizer_args x)] @
              (if device s \<noteq> ''cpu'' then [Inputs_to (device s)] else []) @
              [Lang_code_to_id tc, Generate inp (the_generate_args bos), Decode out0 True])"
  using assms
  by (auto simp add: translate_try_def prog_defs
       split: sum.splits prod.splits option.splits list.splits if_splits)

lemma translate_try_run:
  assumes "tokenizer s = Some tok" and "model s = Some m"
      and "lang_codes_get src ''eng_Latn'' = Inr sc"
      and "lang_codes_get tgt ''spa_Latn'' = Inr tc"
      and "tokenizer_call w tok (the_tokenizer_args x) = Inr inp0"
      and "(if device s \<noteq> ''cpu'' then inputs_to w inp0 (device s) else Inr inp0) = Inr inp"
      and "lang_code_to_id w tok tc = Inr bos"
      and "generate w m inp (the_generate_args bos) = Inr (out0 # outs)"
      and "decode w tok out0 True = Inr translation"
  shows "translate_try w x src tgt s =
           (Inr (success translation src tgt), s,
            [Tokenizer_call (the_tokenizer_args x)] @
            (if device s \<noteq> ''cpu'' then [Inputs_to (device s)] else []) @
            [Lang_code_to_id tc, Generate inp (the_generate_args bos), Decode out0 True])"
  using assms
  by (auto simp add: translate_try_def prog_defs split: if_splits)

lemma translate_loaded: "loaded s \<Longrightarrow> loaded (state_of (translate w x src tgt s))"
  by (simp add: translate_unfold translate_try_except_state)

lemma stub_load_fails:
  "load_model (stub_world False d p j) fresh_translator =
     (Inr [(''error'', JString ''Model not found at /models/nllb''),
           (''status'', JString ''model_not_found'')],
      fresh_translator, [Os_path_exists ''/models/nllb''])"
  by (simp add: load_model_def load_model_try_def prog_defs model_not_found_def stub_defs)

lemma stub_translate_try:
  "translate_try (stub_world b d p j) (JString ''Hello'') (JString ''en'') (JString ''es'')
       loaded_translator =
     (Inr (success d (JString ''en'') (JString ''es'')), loaded_translator,
      [Tokenizer_call (the_tokenizer_args (JString ''Hello'')),
       Lang_code_to_id ''spa_Latn'',
       Generate () (the_generate_args 256098),
       Decode () True])"
  by (simp add: translate_try_def prog_defs stub_defs lang_codes_def)

lemma stub_translate:
  "translate (stub_world b d p j) (JString ''Hello'') (JString ''en'') (JString ''es'')
       loaded_translator =
     (Inr (success d (JString ''en'') (JString ''es'')), loaded_translator,
      [Tokenizer_call (the_tokenizer_args (JString ''Hello'')),
       Lang_code_to_id ''spa_Latn'',
       Generate () (the_generate_args 256098),
       Decode () True])"
proof -
  have "loaded loaded_translator" by (simp add: stub_defs)
  then show ?thesis
    by (simp add: translate_unfold translate_try_except_def try_except_def stub_translate_try)
qed

subsection \<open>The loaded flag through the main loops\<close>

lemma json_mode_try_loaded: "loaded s \<Longrightarrow> loaded (state_of (json_mode_try w s))"
  unfolding json_mode_try_def
  by (intro bind_loaded)
     (simp_all add: prim_loaded load_model_loaded translate_loaded bind_loaded)

lemma json_mode_loaded: "loaded s \<Longrightarrow> loaded (state_of (json_mode w s))"
  unfolding json_mode_def
  by (rule try_except_loaded)
     (auto simp add: json_mode_try_loaded prim_loaded split: if_splits)

lemma interactive_loop_loaded: "loaded s \<Longrightarrow> loaded (state_of (interactive_loop w ins s))"
proof (induction w ins s rule: interactive_loop.induct)
  case (1 w s)
  then show ?case by (simp add: state_of_def)
next
  case (2 w ins s)
  then show ?case by (simp add: state_of_def)
next
  case (3 w l1 ins s)
  show ?case
  proof (cases "lower (strip l1) = ''quit''")
    case True
    with 3 show ?thesis by (simp add: state_of_def)
  next
    case nq: False
    show ?thesis
    proof (cases ins)
      case Nil
      with 3 nq show ?thesis by (simp add: state_of_def)
    next
      case (Cons c2 ins1)
      show ?thesis
      proof (cases c2)
        case Interrupt
        with 3 nq Cons show ?thesis by (simp add: state_of_def)
      next
        case (Line l2)
        show ?thesis
        proof (cases ins1)
          case Nil
          with 3 nq Cons Line show ?thesis by (simp add: state_of_def)
        next
          case c: (Cons c3 ins2)
          show ?thesis
          proof (cases c3)
            case Interrupt
            with 3 nq Cons Line c show ?thesis by (simp add: state_of_def)
          next
            case l3: (Line l3)
            let ?src = "if strip l2 = [] then ''en'' else strip l2"
            let ?tgt = "if strip l3 = [] then ''es'' else strip l3"
            obtain r s1 t1 where
              tr: "translate w (JString (strip l1)) (JString ?src) (JString ?tgt) s = (r, s1, t1)"
              by (rule prod_cases3)
            from translate_loaded [OF "3.prems", of w "JString (strip l1)" "JString ?src"
                "JString ?tgt"] tr
            have ls1: "loaded s1" by (simp add: state_of_def)
            show ?thesis
            proof (cases r)
              case (Inl e)
              with nq Cons Line c l3 tr ls1 show ?thesis
                by (simp add: state_of_def)
            next
              case (Inr res)
              from "3.IH" [OF refl nq Cons Line refl c l3 refl tr [symmetric] Inr refl ls1]
              have ih: "loaded (state_of (interactive_loop w ins2 s1))" .
              obtain r2 s2 t2 where il: "interactive_loop w ins2 s1 = (r2, s2, t2)"
                by (rule prod_cases3)
              with ih nq Cons Line c l3 tr Inr show ?thesis
                by (simp add: state_of_def)
            qed
          qed
        qed
      qed
    qed
  qed
qed

lemma translate_loaded_no_load:
  "loaded s \<Longrightarrow> filter is_load_event (trace_of (translate w x src tgt s)) = []"
  using translate_try_trace [of w x src tgt s]
  by (auto simp add: translate_unfold translate_try_except_trace filter_empty_conv)

subsection \<open>The language table\<close>



subsection \<open>Loading\<close>

text \<open>
  C4. When the configured model path does not exist, \<open>load_model\<close> returns the result
  with status model\_not\_found whose error message is "Model not found at" followed by
  the path, after the existence test alone, and leaves the translator as it was; so a
  loaded flag that was false is still false.
\<close>

theorem load_model_missing_path:
  assumes "\<not> path_exists w (model_path s)"
  shows "load_model w s =
           (Inr [(''error'', JString (''Model not found at '' @ model_path s)),
                 (''status'', JString ''model_not_found'')],
            s, [Os_path_exists (model_path s)]) \<and>
         (\<not> loaded s \<longrightarrow> \<not> loaded (state_of (load_model w s)))"
  using assms
  by (simp add: load_model_def load_model_try_def prog_defs model_not_found_def)

theorem load_model_missing_path_witness:
  "\<not> path_exists (stub_world False ''Hola'' ''{}'' not_json) (model_path fresh_translator) \<and>
   \<not> loaded fresh_translator \<and>
   load_model (stub_world False ''Hola'' ''{}'' not_json) fresh_translator =
     (Inr [(''error'', JString ''Model not found at /models/nllb''),
           (''status'', JString ''model_not_found'')],
      fresh_translator, [Os_path_exists ''/models/nllb'']) \<and>
   \<not> loaded (state_of (load_model (stub_world False ''Hola'' ''{}'' not_json) fresh_translator))"
proof -
  have h: "\<not> path_exists (stub_world False ''Hola'' ''{}'' not_json) (model_path fresh_translator)"
    by (simp add: stub_defs)
  have l: "\<not> loaded fresh_translator"
    by (simp add: stub_defs)
  have m: "model_path fresh_translator = ''/models/nllb''"
    by (simp add: stub_defs)
  show ?thesis
    using h l load_model_missing_path [OF h] by (simp add: m state_of_def)
qed

text \<open>
  C3. A \<open>translate\<close> call made while the loaded flag is false starts with the events of
  \<open>load_model\<close>; and when that load returns a result with a key \<open>error\<close>, the call is
  the load: the same result, the same translator, and no event after those of the load.
\<close>

theorem translate_returns_load_failure:
  assumes "\<not> loaded s"
  shows "(\<exists>t. trace_of (translate w x src tgt s) = trace_of (load_model w s) @ t) \<and>
         (\<forall>r. result_of (load_model w s) = Inr r \<and> has_key ''error'' r \<longrightarrow>
              translate w x src tgt s = load_model w s)"
  using assms
  by (cases "load_model w s" rule: prod_cases3)
     (auto simp add: translate_unfold prog_defs split: sum.splits prod.splits)

theorem translate_returns_load_failure_witness:
  "\<not> loaded fresh_translator \<and>
   result_of (load_model (stub_world False ''Hola'' ''{}'' not_json) fresh_translator) =
     Inr [(''error'', JString ''Model not found at /models/nllb''),
          (''status'', JString ''model_not_found'')] \<and>
   has_key ''error'' [(''error'', JString ''Model not found at /models/nllb''),
                      (''status'', JString ''model_not_found'')] \<and>
   translate (stub_world False ''Hola'' ''{}'' not_json)
       (JString ''Hello'') (JString ''en'') (JString ''es'') fresh_translator =
     load_model (stub_world False ''Hola'' ''{}'' not_json) fresh_translator"
proof -
  have l: "\<not> loaded fresh_translator"
    by (simp add: stub_defs)
  have r: "result_of (load_model (stub_world False ''Hola'' ''{}'' not_json) fresh_translator) =
     Inr [(''error'', JString ''Model not found at /models/nllb''),
          (''status'', JString ''model_not_found'')]"
    by (simp add: stub_load_fails result_of_def)
  have k: "has_key ''error'' [(''error'', JString ''Model not found at /models/nllb''),
                      (''status'', JString ''model_not_found'')]"
    by (simp add: has_key_def)
  show ?thesis
    using l r k
      translate_returns_load_failure [OF l, of "stub_world False ''Hola'' ''{}'' not_json"
        "JString ''Hello''" "JString ''en''" "JString ''es''"]
    by simp
qed

subsection \<open>Translating\<close>

text \<open>
  C1, with the translation being the decoded string. On a loaded translator that holds
  a tokenizer and a model, when both language arguments are hashable and the tokenizer
  call, the move to the device (made only off the CPU), the lookup of the target
  language's token id, the generation (of at least one sequence) and the decoding all
  return a value, \<open>translate\<close> returns the response with status success, the decoded
  string as translation, whatever it is, the two language arguments as they were passed,
  and model nllb-200.
\<close>

theorem translate_success_response:
  assumes "loaded s"
      and "tokenizer s = Some tok" and "model s = Some m"
      and "lang_codes_get src ''eng_Latn'' = Inr sc"
      and "lang_codes_get tgt ''spa_Latn'' = Inr tc"
      and "tokenizer_call w tok (the_tokenizer_args x) = Inr inp0"
      and "(if device s \<noteq> ''cpu'' then inputs_to w inp0 (device s) else Inr inp0) = Inr inp"
      and "lang_code_to_id w tok tc = Inr bos"
      and "generate w m inp (the_generate_args bos) = Inr (out0 # outs)"
      and "decode w tok out0 True = Inr translation"
  shows "result_of (translate w x src tgt s) =
           Inr [(''status'', JString ''success''),
                (''translation'', JString translation),
                (''source_lang'', src),
                (''target_lang'', tgt),
                (''model'', JString ''nllb-200'')]"
  using assms(1) translate_try_run [OF assms(2-10)]
  by (simp add: translate_unfold translate_try_except_def try_except_def result_of_def
      success_def)

text \<open>The request of the specification, with a decoder that returns "Hola".\<close>

theorem translate_success_response_witness:
  "loaded loaded_translator \<and>
   tokenizer loaded_translator = Some () \<and> model loaded_translator = Some () \<and>
   lang_codes_get (JString ''en'') ''eng_Latn'' = Inr ''eng_Latn'' \<and>
   lang_codes_get (JString ''es'') ''spa_Latn'' = Inr ''spa_Latn'' \<and>
   tokenizer_call (stub_world True ''Hola'' ''{}'' not_json) ()
     (the_tokenizer_args (JString ''Hello'')) = Inr () \<and>
   (if device loaded_translator \<noteq> ''cpu''
    then inputs_to (stub_world True ''Hola'' ''{}'' not_json) () (device loaded_translator)
    else Inr ()) = Inr () \<and>
   lang_code_to_id (stub_world True ''Hola'' ''{}'' not_json) () ''spa_Latn'' = Inr 256098 \<and>
   generate (stub_world True ''Hola'' ''{}'' not_json) () () (the_generate_args 256098) =
     Inr [()] \<and>
   decode (stub_world True ''Hola'' ''{}'' not_json) () () True = Inr ''Hola'' \<and>
   result_of (translate (stub_world True ''Hola'' ''{}'' not_json)
                (JString ''Hello'') (JString ''en'') (JString ''es'') loaded_translator) =
     Inr [(''status'', JString ''success''),
          (''translation'', JString ''Hola''),
          (''source_lang'', JString ''en''),
          (''target_lang'', JString ''es''),
          (''model'', JString ''nllb-200'')]"
proof -
  let ?w = "stub_world True ''Hola'' ''{}'' not_json"
  have h1: "loaded loaded_translator"
    by (simp add: stub_defs)
  have h2: "tokenizer loaded_translator = Some ()"
    by (simp add: stub_defs)
  have h3: "model loaded_translator = Some ()"
    by (simp add: stub_defs)
  have h4: "lang_codes_get (JString ''en'') ''eng_Latn'' = Inr ''eng_Latn''"
    by (simp add: lang_codes_def)
  have h5: "lang_codes_get (JString ''es'') ''spa_Latn'' = Inr ''spa_Latn''"
    by (simp add: lang_codes_def)
  have h6: "tokenizer_call ?w () (the_tokenizer_args (JString ''Hello'')) = Inr ()"
    by (simp add: stub_defs)
  have h7: "(if device loaded_translator \<noteq> ''cpu''
             then inputs_to ?w () (device loaded_translator) else Inr ()) = Inr ()"
    by (simp add: stub_defs)
  have h8: "lang_code_to_id ?w () ''spa_Latn'' = Inr 256098"
    by (simp add: stub_defs)
  have h9: "generate ?w () () (the_generate_args 256098) = Inr [()]"
    by (simp add: stub_defs)
  have h10: "decode ?w () () True = Inr ''Hola''"
    by (simp add: stub_defs)
  show ?thesis
    using h1 h2 h3 h4 h5 h6 h7 h8 h9 h10
      translate_success_response [OF h1 h2 h3 h4 h5 h6 h7 h8 h9 h10]
    by simp
qed

text \<open>
  The translation of a successful call need not be a non-empty string. Where the decoder
  returns the empty string (generated tokens that are all special tokens are skipped),
  every step succeeds, the status is success, and the translation is empty: nothing in
  \<open>translate\<close> inspects the decoded string.
\<close>

theorem translate_empty_translation:
  "loaded loaded_translator \<and>
   tokenizer_call (stub_world True [] ''{}'' not_json) ()
     (the_tokenizer_args (JString ''Hello'')) = Inr () \<and>
   lang_code_to_id (stub_world True [] ''{}'' not_json) () ''spa_Latn'' = Inr 256098 \<and>
   generate (stub_world True [] ''{}'' not_json) () () (the_generate_args 256098) = Inr [()] \<and>
   decode (stub_world True [] ''{}'' not_json) () () True = Inr [] \<and>
   result_of (translate (stub_world True [] ''{}'' not_json)
                (JString ''Hello'') (JString ''en'') (JString ''es'') loaded_translator) =
     Inr [(''status'', JString ''success''),
          (''translation'', JString []),
          (''source_lang'', JString ''en''),
          (''target_lang'', JString ''es''),
          (''model'', JString ''nllb-200'')]"
  by (simp add: stub_translate result_of_def success_def) (simp add: stub_defs)

text \<open>
  C5. When \<open>translate\<close> returns a response with status success, its events are those
  of the implicit load, if the translator was not loaded, followed by: the tokenizer
  call on the text with tensors "pt", padding, truncation and maximum length 512; the
  move to the device, off the CPU only; the lookup of the token id \<open>bos\<close> of the
  resolved target code; one \<open>generate\<close> call with forced first token \<open>bos\<close>, maximum
  length 512, 4 beams, early stopping and no sampling; and the decoding.
\<close>

theorem translate_generation_arguments:
  assumes "result_of (translate w x src tgt s) = Inr r"
      and "map_of r ''status'' = Some (JString ''success'')"
  shows "\<exists>tok tc bos inp out0.
           tokenizer (state_of (translate w x src tgt s)) = Some tok \<and>
           lang_codes_get tgt ''spa_Latn'' = Inr tc \<and>
           lang_code_to_id w tok tc = Inr bos \<and>
           trace_of (translate w x src tgt s) =
             (if loaded s then [] else trace_of (load_model w s)) @
             [Tokenizer_call \<lparr>text_arg = x, return_tensors = ''pt'', padding = True,
                              truncation = True, tok_max_length = 512\<rparr>] @
             (if device s \<noteq> ''cpu'' then [Inputs_to (device s)] else []) @
             [Lang_code_to_id tc,
              Generate inp \<lparr>forced_bos_token_id = bos, max_length = 512, num_beams = 4,
                            early_stopping = True, do_sample = False\<rparr>,
              Decode out0 True]"
proof -
  have key: "s' = s0 \<and> (\<exists>tok tc bos inp out0.
           tokenizer s0 = Some tok \<and>
           lang_codes_get tgt ''spa_Latn'' = Inr tc \<and>
           lang_code_to_id w tok tc = Inr bos \<and>
           t =
             [Tokenizer_call (the_tokenizer_args x)] @
             (if device s0 \<noteq> ''cpu'' then [Inputs_to (device s0)] else []) @
             [Lang_code_to_id tc, Generate inp (the_generate_args bos), Decode out0 True])"
    if h: "translate_try_except w x src tgt s0 = (Inr r, s', t)" for s0 s' t
  proof -
    from translate_try_except_cases [OF h] assms(2)
    have eq: "s' = s0" and run: "translate_try w x src tgt s0 = (Inr r, s0, t)"
      by (auto simp add: status_simps)
    from run have "result_of (translate_try w x src tgt s0) = Inr r"
      by (simp add: result_of_def)
    from translate_try_success [OF this] run eq show ?thesis
      by auto
  qed
  show ?thesis
  proof (cases "loaded s")
    case True
    obtain r' s' t where c: "translate_try_except w x src tgt s = (r', s', t)"
      by (rule prod_cases3)
    with True assms(1) have "r' = Inr r"
      by (simp add: translate_unfold result_of_def)
    with c have h: "translate_try_except w x src tgt s = (Inr r, s', t)" by simp
    from key [OF h] True h show ?thesis
      by (auto simp add: translate_unfold state_of_def trace_of_def the_tokenizer_args_def
          the_generate_args_def)
  next
    case False
    obtain lr0 s1 t1 where l: "load_model w s = (lr0, s1, t1)"
      by (rule prod_cases3)
    with False assms(1) obtain lr where lr: "lr0 = Inr lr"
      by (cases lr0) (simp_all add: translate_unfold result_of_def)
    have ne: "\<not> has_key ''error'' lr"
    proof
      assume e: "has_key ''error'' lr"
      with False l lr assms(1) have "lr = r"
        by (simp add: translate_unfold result_of_def)
      with load_model_result [of w s lr s1 t1] l lr e assms(2) show False
        by (auto simp add: status_simps has_key_def loaded_message_def)
    qed
    obtain r' s' t where c: "translate_try_except w x src tgt s1 = (r', s', t)"
      by (rule prod_cases3)
    with False l lr ne assms(1) have "r' = Inr r"
      by (simp add: translate_unfold result_of_def)
    with c have h: "translate_try_except w x src tgt s1 = (Inr r, s', t)" by simp
    from load_model_result [of w s lr s1 t1] l lr have d: "device s1 = device s" by simp
    from key [OF h] False h l lr ne d show ?thesis
      by (auto simp add: translate_unfold state_of_def trace_of_def the_tokenizer_args_def
          the_generate_args_def)
  qed
qed

theorem translate_generation_arguments_witness:
  "result_of (translate (stub_world True ''Hola'' ''{}'' not_json)
                (JString ''Hello'') (JString ''en'') (JString ''es'') loaded_translator) =
     Inr (success ''Hola'' (JString ''en'') (JString ''es'')) \<and>
   map_of (success ''Hola'' (JString ''en'') (JString ''es'')) ''status'' =
     Some (JString ''success'') \<and>
   trace_of (translate (stub_world True ''Hola'' ''{}'' not_json)
                (JString ''Hello'') (JString ''en'') (JString ''es'') loaded_translator) =
     [Tokenizer_call \<lparr>text_arg = JString ''Hello'', return_tensors = ''pt'', padding = True,
                      truncation = True, tok_max_length = 512\<rparr>,
      Lang_code_to_id ''spa_Latn'',
      Generate () \<lparr>forced_bos_token_id = 256098, max_length = 512, num_beams = 4,
                   early_stopping = True, do_sample = False\<rparr>,
      Decode () True]"
proof -
  let ?w = "stub_world True ''Hola'' ''{}'' not_json"
  have h1: "result_of (translate ?w (JString ''Hello'') (JString ''en'') (JString ''es'')
                         loaded_translator) =
              Inr (success ''Hola'' (JString ''en'') (JString ''es''))"
    by (simp add: stub_translate result_of_def)
  have h2: "map_of (success ''Hola'' (JString ''en'') (JString ''es'')) ''status'' =
              Some (JString ''success'')"
    by (simp add: status_simps)
  have c: "device loaded_translator = ''cpu''" "loaded loaded_translator"
          "lang_codes_get (JString ''es'') ''spa_Latn'' = Inr ''spa_Latn''"
          "lang_code_to_id ?w () ''spa_Latn'' = Inr 256098"
    by (simp_all add: stub_defs lang_codes_def)
  show ?thesis
    using h1 h2 translate_generation_arguments [OF h1 h2] c
    by auto
qed

subsection \<open>The JSON mode\<close>





text \<open>
  C10. In the JSON mode, when the request decodes to an object with action "translate"
  and no key \<open>text\<close>, the subscript raises \<open>KeyError\<close> before \<open>translate\<close> is
  called, the generic handler catches it, and the process writes the one response with
  status error and the message "Unexpected error: " followed by the quoted key; the
  response is neither a translation\_error nor a json\_error, and \<open>main\<close> returns
  normally.
\<close>

theorem json_mode_missing_text:
  assumes "\<not> arg_interactive a"
      and "stdin_read w = Inr payload"
      and "json_loads w payload = Inr (JObject kvs)"
      and "map_of kvs ''action'' = Some (JString ''translate'')"
      and "map_of kvs ''text'' = None"
  shows "main w a ins =
           (Inr (), init (arg_model_path a) (arg_device a),
            [Stdin_read, Json_loads payload,
             Print [(''error'',
                     JString (''Unexpected error: '' @ [CHR 0x27] @ ''text'' @ [CHR 0x27])),
                    (''status'', JString ''error'')] None])"
  using assms
  by (simp add: main_def json_mode_def json_mode_try_def unexpected_error_def quoted_def
      prog_defs)

theorem json_mode_missing_text_witness:
  "\<not> arg_interactive
       \<lparr>arg_model_path = ''/models/nllb'', arg_device = ''cpu'', arg_interactive = False\<rparr> \<and>
   stdin_read (stub_world True ''Hola'' ''translate request''
                 (Inr (JObject [(''action'', JString ''translate'')]))) =
     Inr ''translate request'' \<and>
   json_loads (stub_world True ''Hola'' ''translate request''
                 (Inr (JObject [(''action'', JString ''translate'')]))) ''translate request'' =
     Inr (JObject [(''action'', JString ''translate'')]) \<and>
   map_of [(''action'', JString ''translate'')] ''action'' = Some (JString ''translate'') \<and>
   map_of [(''action'', JString ''translate'')] ''text'' = None \<and>
   main (stub_world True ''Hola'' ''translate request''
           (Inr (JObject [(''action'', JString ''translate'')])))
        \<lparr>arg_model_path = ''/models/nllb'', arg_device = ''cpu'', arg_interactive = False\<rparr>
        [] =
     (Inr (), fresh_translator,
      [Stdin_read, Json_loads ''translate request'',
       Print [(''error'',
               JString (''Unexpected error: '' @ [CHR 0x27] @ ''text'' @ [CHR 0x27])),
              (''status'', JString ''error'')] None])"
proof -
  let ?w = "stub_world True ''Hola'' ''translate request''
              (Inr (JObject [(''action'', JString ''translate'')]))"
  let ?a = "\<lparr>arg_model_path = ''/models/nllb'', arg_device = ''cpu'',
             arg_interactive = False\<rparr>"
  have h1: "\<not> arg_interactive ?a"
    by simp
  have h2: "stdin_read ?w = Inr ''translate request''"
    by (simp add: stub_defs)
  have h3: "json_loads ?w ''translate request'' =
              Inr (JObject [(''action'', JString ''translate'')])"
    by (simp add: stub_defs)
  have h4: "map_of [(''action'', JString ''translate'')] ''action'' =
              Some (JString ''translate'')"
    by simp
  have h5: "map_of [(''action'', JString ''translate'')] ''text'' = None"
    by simp
  show ?thesis
    using h1 h2 h3 h4 h5 json_mode_missing_text [OF h1 h2 h3 h4 h5, of "[]"]
    by (simp add: fresh_translator_def)
qed

subsection \<open>The loaded flag\<close>

text \<open>
  C8. Once the loaded flag is true it stays true through every operation there is:
  \<open>load_model\<close>, \<open>translate\<close>, the handling of a JSON request and any run of the
  interactive loop (no operation unloads); and a \<open>translate\<close> call on a loaded
  translator leaves the translator as it is and makes no call of \<open>load_model\<close>: none
  of its events is an event of a load.
\<close>

theorem loaded_never_reset:
  assumes "loaded s"
  shows "loaded (state_of (load_model w s)) \<and>
         loaded (state_of (translate w x src tgt s)) \<and>
         loaded (state_of (json_mode w s)) \<and>
         loaded (state_of (interactive_loop w ins s)) \<and>
         state_of (translate w x src tgt s) = s \<and>
         filter is_load_event (trace_of (translate w x src tgt s)) = []"
proof -
  from assms have "state_of (translate w x src tgt s) = s"
    by (simp add: translate_unfold translate_try_except_state)
  with assms show ?thesis
    by (simp add: load_model_loaded json_mode_loaded interactive_loop_loaded
        translate_loaded_no_load)
qed

theorem loaded_never_reset_witness:
  "loaded loaded_translator \<and>
   loaded (state_of (load_model (stub_world True ''Hola'' ''{}'' not_json) loaded_translator)) \<and>
   loaded (state_of (translate (stub_world True ''Hola'' ''{}'' not_json)
                       (JString ''Hello'') (JString ''en'') (JString ''es'')
                       loaded_translator)) \<and>
   loaded (state_of (json_mode (stub_world True ''Hola'' ''{}'' not_json) loaded_translator)) \<and>
   loaded (state_of (interactive_loop (stub_world True ''Hola'' ''{}'' not_json)
                       [Line ''Hello'', Line ''en'', Line ''es'', Line ''quit'']
                       loaded_translator)) \<and>
   state_of (translate (stub_world True ''Hola'' ''{}'' not_json)
               (JString ''Hello'') (JString ''en'') (JString ''es'') loaded_translator) =
     loaded_translator \<and>
   filter is_load_event
     (trace_of (translate (stub_world True ''Hola'' ''{}'' not_json)
                  (JString ''Hello'') (JString ''en'') (JString ''es'') loaded_translator)) = []"
proof -
  have h: "loaded loaded_translator"
    by (simp add: stub_defs)
  show ?thesis
    using h
      loaded_never_reset [OF h, of "stub_world True ''Hola'' ''{}'' not_json"
        "JString ''Hello''" "JString ''en''" "JString ''es''"
        "[Line ''Hello'', Line ''en'', Line ''es'', Line ''quit'']"]
    by simp
qed

subsection \<open>The interactive mode\<close>

text \<open>
  C9. In the interactive loop, at any iteration (any translator, any further console
  input), the line "quit" at the text prompt ends the loop normally: the only event of
  the iteration is the text prompt, so neither language prompt is reached, \<open>translate\<close>
  is not called and no response is printed, and the translator is left as it was. The
  same holds for every line that is "quit" after stripping and lowering. From \<open>main\<close>,
  a first line "quit" gives the two banner lines and the text prompt, and nothing else.
\<close>

theorem quit_ends_loop:
  "interactive_loop w (Line ''quit'' # ins) s = (Inr (), s, [Prompt ''Text: '']) \<and>
   (lower (strip l) = ''quit'' \<longrightarrow>
      interactive_loop w (Line l # ins) s = (Inr (), s, [Prompt ''Text: ''])) \<and>
   (arg_interactive a \<longrightarrow>
      main w a (Line ''quit'' # ins) =
        (Inr (), init (arg_model_path a) (arg_device a),
         [Print_text ''NLLB Translator Interactive Mode'',
          Print_text (''Enter '' @ [CHR 0x27] @ ''quit'' @ [CHR 0x27] @ '' to exit''),
          Prompt ''Text: '']))"
  by (simp add: main_def lower_def strip_def is_space_def lower_char_def quoted_def)

theorem quit_ends_loop_witness:
  "lower (strip ''  QUIT '') = ''quit'' \<and>
   arg_interactive
     \<lparr>arg_model_path = ''/models/nllb'', arg_device = ''cpu'', arg_interactive = True\<rparr> \<and>
   interactive_loop (stub_world True ''Hola'' ''{}'' not_json)
       (Line ''  QUIT '' # [Line ''en'', Line ''es'']) loaded_translator =
     (Inr (), loaded_translator, [Prompt ''Text: '']) \<and>
   main (stub_world True ''Hola'' ''{}'' not_json)
        \<lparr>arg_model_path = ''/models/nllb'', arg_device = ''cpu'', arg_interactive = True\<rparr>
        (Line ''quit'' # [Line ''en'', Line ''es'']) =
     (Inr (), fresh_translator,
      [Print_text ''NLLB Translator Interactive Mode'',
       Print_text (''Enter '' @ [CHR 0x27] @ ''quit'' @ [CHR 0x27] @ '' to exit''),
       Prompt ''Text: ''])"
proof -
  let ?a = "\<lparr>arg_model_path = ''/models/nllb'', arg_device = ''cpu'',
             arg_interactive = True\<rparr>"
  have h1: "lower (strip ''  QUIT '') = ''quit''"
    by code_simp
  have h2: "arg_interactive ?a"
    by simp
  show ?thesis
    using h1 h2
      quit_ends_loop [of "stub_world True ''Hola'' ''{}'' not_json" "[Line ''en'', Line ''es'']"
        loaded_translator "''  QUIT ''" ?a]
    by (simp add: fresh_translator_def)
qed

end
